theory Spec2Isabelle
  imports Main
begin

section \<open>Python values, exceptions and string helpers\<close>

text \<open>
  The connector and the server are dynamically typed: the server hands whatever
  \<^verbatim>\<open>json.loads\<close> produced to the connector. A Python value is therefore a value of
  \<open>pyval\<close>; a \<^verbatim>\<open>dict\<close> is an association list in insertion order (its keys are
  strings, as in decoded JSON). Floating-point numbers are left out.
\<close>

datatype pyval =
    PyNone
  | PyBool bool
  | PyInt int
  | PyStr string
  | PyList "pyval list"
  | PyDict "(string \<times> pyval) list"

text \<open>
  An exception is its class with one payload string: the offending path for the
  operating-system errors, a short description otherwise. \<open>py_str\<close> returns that
  payload where the program takes \<^verbatim>\<open>str(e)\<close>. The wording CPython builds around
  it (the errno prefix and the quoted path, the type names in a \<^verbatim>\<open>TypeError\<close>) is
  not reproduced, and no statement below depends on it.
\<close>

datatype exn =
    FileNotFoundError string
  | NotADirectoryError string
  | IsADirectoryError string
  | PermissionError string
  | OSError string
  | TypeError string
  | AttributeError string
  | ValueError string
  | JSONDecodeError string

fun py_str :: "exn \<Rightarrow> string" where
  "py_str (FileNotFoundError s) = s"
| "py_str (NotADirectoryError s) = s"
| "py_str (IsADirectoryError s) = s"
| "py_str (PermissionError s) = s"
| "py_str (OSError s) = s"
| "py_str (TypeError s) = s"
| "py_str (AttributeError s) = s"
| "py_str (ValueError s) = s"
| "py_str (JSONDecodeError s) = s"

text \<open>\<^verbatim>\<open>s.endswith(suf)\<close>.\<close>

definition endswith :: "string \<Rightarrow> string \<Rightarrow> bool" where
  "endswith s suf \<longleftrightarrow>
     length suf \<le> length s \<and> drop (length s - length suf) s = suf"

text \<open>\<^verbatim>\<open>sep.join(xs)\<close> on a list of strings.\<close>

fun str_join :: "string \<Rightarrow> string list \<Rightarrow> string" where
  "str_join sep [] = []"
| "str_join sep [x] = x"
| "str_join sep (x # y # ys) = x @ sep @ str_join sep (y # ys)"

text \<open>Truthiness, as \<^verbatim>\<open>not v\<close> tests it.\<close>

fun truthy :: "pyval \<Rightarrow> bool" where
  "truthy PyNone = False"
| "truthy (PyBool b) = b"
| "truthy (PyInt i) = (i \<noteq> 0)"
| "truthy (PyStr s) = (s \<noteq> [])"
| "truthy (PyList xs) = (xs \<noteq> [])"
| "truthy (PyDict kvs) = (kvs \<noteq> [])"

fun is_str :: "pyval \<Rightarrow> bool" where
  "is_str (PyStr s) = True"
| "is_str v = False"

fun the_str :: "pyval \<Rightarrow> string" where
  "the_str (PyStr s) = s"
| "the_str v = []"

text \<open>
  \<^verbatim>\<open>sep.join(v)\<close> on any value: a list must hold strings only, a string is
  iterated character by character, a dict by its keys, and anything else is not
  iterable.
\<close>

fun py_join :: "string \<Rightarrow> pyval \<Rightarrow> exn + string" where
  "py_join sep (PyList xs) =
     (if list_all is_str xs then Inr (str_join sep (map the_str xs))
      else Inl (TypeError ''sequence item: expected str instance''))"
| "py_join sep (PyStr s) = Inr (str_join sep (map (\<lambda>c. [c]) s))"
| "py_join sep (PyDict kvs) = Inr (str_join sep (map fst kvs))"
| "py_join sep v = Inl (TypeError ''can only join an iterable'')"

text \<open>\<^verbatim>\<open>d.get(k, default)\<close> on a dict.\<close>

definition dict_get :: "(string \<times> pyval) list \<Rightarrow> string \<Rightarrow> pyval \<Rightarrow> pyval" where
  "dict_get kvs k dflt = (case map_of kvs k of Some v \<Rightarrow> v | None \<Rightarrow> dflt)"

section \<open>The operating system: paths, files, working directory\<close>

text \<open>
  \<^verbatim>\<open>os.path.join\<close> (POSIX): a component that starts with a slash discards what
  came before it; otherwise it is appended, after a slash unless the path so far
  is empty or already ends with one.
\<close>

definition join2 :: "string \<Rightarrow> string \<Rightarrow> string" where
  "join2 path b =
     (if b \<noteq> [] \<and> hd b = CHR ''/'' then b
      else if path = [] \<or> last path = CHR ''/'' then path @ b
      else path @ ''/'' @ b)"

definition path_join :: "string \<Rightarrow> string list \<Rightarrow> string" where
  "path_join a ps = foldl join2 a ps"

text \<open>
  The file system is a store from canonical absolute paths (lists of component
  names, the root being \<open>[]\<close>) to nodes. A directory carries the names of its
  entries in enumeration order. There are no symbolic links and no permission
  bits. The world also holds the working directory and the two limits of the
  system on names: the longest component (\<^verbatim>\<open>NAME_MAX\<close>) and the size of the buffer
  for a whole path (\<^verbatim>\<open>PATH_MAX\<close>, which counts the terminating NUL).
\<close>

datatype node = File string | Dir "string list"

type_synonym fs = "string list \<Rightarrow> node option"

record world =
  files :: fs
  cwd :: "string list"
  name_max :: nat
  path_max :: nat

fun split_sep :: "string \<Rightarrow> string list" where
  "split_sep [] = [[]]"
| "split_sep (c # cs) =
     (if c = CHR ''/'' then [] # split_sep cs
      else (case split_sep cs of
              [] \<Rightarrow> [[c]]
            | w # ws \<Rightarrow> (c # w) # ws))"

text \<open>
  A path is refused before any lookup when it holds a NUL byte (Python raises
  \<^verbatim>\<open>ValueError\<close>) or does not fit the path buffer (\<^verbatim>\<open>ENAMETOOLONG\<close>, an
  \<^verbatim>\<open>OSError\<close>).
\<close>

definition path_error :: "world \<Rightarrow> string \<Rightarrow> exn option" where
  "path_error w p =
     (if CHR 0x00 \<in> set p then Some (ValueError ''embedded null byte'')
      else if path_max w \<le> length p then Some (OSError p)
      else None)"

text \<open>
  Path resolution walks the components from a starting directory. Every
  component is looked up in a directory that exists: an empty component or
  \<open>.\<close> stays, \<open>..\<close> goes to the parent, a name longer than the limit \<open>nm\<close> is
  refused (\<^verbatim>\<open>ENAMETOOLONG\<close>), any other name goes to that entry (whose existence
  the next step or the caller checks).
\<close>

fun walk :: "fs \<Rightarrow> nat \<Rightarrow> string \<Rightarrow> string list \<Rightarrow> string list \<Rightarrow> exn + string list" where
  "walk f nm p cur [] = Inr cur"
| "walk f nm p cur (c # cs) =
     (case f cur of
        None \<Rightarrow> Inl (FileNotFoundError p)
      | Some (File _) \<Rightarrow> Inl (NotADirectoryError p)
      | Some (Dir _) \<Rightarrow>
          if c = [] \<or> c = ''.'' then walk f nm p cur cs
          else if c = ''..'' then walk f nm p (butlast cur) cs
          else if nm < length c then Inl (OSError p)
          else walk f nm p (cur @ [c]) cs)"

definition start_dir :: "world \<Rightarrow> string \<Rightarrow> string list" where
  "start_dir w p = (if p \<noteq> [] \<and> hd p = CHR ''/'' then [] else cwd w)"

definition resolve :: "world \<Rightarrow> string \<Rightarrow> exn + string list" where
  "resolve w p =
     (case path_error w p of
        Some e \<Rightarrow> Inl e
      | None \<Rightarrow>
          if p = [] then Inl (FileNotFoundError p)
          else walk (files w) (name_max w) p (start_dir w p) (split_sep p))"

definition os_path_exists :: "world \<Rightarrow> string \<Rightarrow> bool" where
  "os_path_exists w p =
     (case resolve w p of
        Inl e \<Rightarrow> False
      | Inr q \<Rightarrow> files w q \<noteq> None)"

definition os_path_isdir :: "world \<Rightarrow> string \<Rightarrow> bool" where
  "os_path_isdir w p =
     (case resolve w p of
        Inl e \<Rightarrow> False
      | Inr q \<Rightarrow> (case files w q of Some (Dir _) \<Rightarrow> True | _ \<Rightarrow> False))"

definition os_listdir :: "world \<Rightarrow> string \<Rightarrow> exn + string list" where
  "os_listdir w p =
     (case resolve w p of
        Inl e \<Rightarrow> Inl e
      | Inr q \<Rightarrow>
          (case files w q of
             None \<Rightarrow> Inl (FileNotFoundError p)
           | Some (File _) \<Rightarrow> Inl (NotADirectoryError p)
           | Some (Dir names) \<Rightarrow> Inr names))"

definition render :: "string list \<Rightarrow> string" where
  "render q = (if q = [] then ''/'' else concat (map (\<lambda>c. ''/'' @ c) q))"

definition os_getcwd :: "world \<Rightarrow> exn + string" where
  "os_getcwd w =
     (case files w (cwd w) of
        Some (Dir _) \<Rightarrow> Inr (render (cwd w))
      | _ \<Rightarrow> Inl (FileNotFoundError []))"

definition os_chdir :: "string \<Rightarrow> world \<Rightarrow> exn + world" where
  "os_chdir p w =
     (case resolve w p of
        Inl e \<Rightarrow> Inl e
      | Inr q \<Rightarrow>
          (case files w q of
             None \<Rightarrow> Inl (FileNotFoundError p)
           | Some (File _) \<Rightarrow> Inl (NotADirectoryError p)
           | Some (Dir _) \<Rightarrow> Inr (w\<lparr>cwd := q\<rparr>)))"

text \<open>
  \<^verbatim>\<open>open(p, 'w')\<close>: the path must be acceptable, the parent must be an existing
  directory and the name within the limit; the file is created (entered last in
  the parent's listing) or truncated. The result is the canonical path of the open
  file and the world with the empty file in it.
\<close>

definition os_open_w :: "string \<Rightarrow> world \<Rightarrow> exn + (string list \<times> world)" where
  "os_open_w p w =
     (case path_error w p of
        Some e \<Rightarrow> Inl e
      | None \<Rightarrow>
      if p = [] then Inl (FileNotFoundError p)
      else
        let comps = split_sep p; name = last comps in
        case walk (files w) (name_max w) p (start_dir w p) (butlast comps) of
          Inl e \<Rightarrow> Inl e
        | Inr par \<Rightarrow>
            (case files w par of
               None \<Rightarrow> Inl (FileNotFoundError p)
             | Some (File _) \<Rightarrow> Inl (NotADirectoryError p)
             | Some (Dir names) \<Rightarrow>
                 if name = [] \<or> name = ''.'' \<or> name = ''..''
                 then Inl (IsADirectoryError p)
                 else if name_max w < length name then Inl (OSError p)
                 else
                   (case files w (par @ [name]) of
                      Some (Dir _) \<Rightarrow> Inl (IsADirectoryError p)
                    | Some (File _) \<Rightarrow>
                        Inr (par @ [name],
                             w\<lparr>files := (files w)(par @ [name] \<mapsto> File [])\<rparr>)
                    | None \<Rightarrow>
                        Inr (par @ [name],
                             w\<lparr>files := (files w)
                                  (par \<mapsto> Dir (names @ [name]),
                                   par @ [name] \<mapsto> File [])\<rparr>))))"

text \<open>
  Reading a file. A string of the model is a string of bytes: the content handed to
  \<^verbatim>\<open>f.write\<close> is identified with the bytes that text mode stores for it (on POSIX
  the write translates no newline). \<open>os_read_bytes\<close> is \<^verbatim>\<open>open(p, 'rb').read()\<close>,
  the stored body as it is.
\<close>

definition os_read_bytes :: "world \<Rightarrow> string \<Rightarrow> exn + string" where
  "os_read_bytes w p =
     (case resolve w p of
        Inl e \<Rightarrow> Inl e
      | Inr q \<Rightarrow>
          (case files w q of
             None \<Rightarrow> Inl (FileNotFoundError p)
           | Some (Dir _) \<Rightarrow> Inl (IsADirectoryError p)
           | Some (File c) \<Rightarrow> Inr c))"

text \<open>
  \<open>os_read_text\<close> is \<^verbatim>\<open>open(p).read()\<close>: text mode with universal newlines, which
  turns every \<^verbatim>\<open>\r\n\<close> and every remaining \<^verbatim>\<open>\r\<close> into \<^verbatim>\<open>\n\<close>.
\<close>

fun universal_newlines :: "string \<Rightarrow> string" where
  "universal_newlines [] = []"
| "universal_newlines [c] = (if c = CHR 0x0D then [CHR 0x0A] else [c])"
| "universal_newlines (c # d # cs) =
     (if c = CHR 0x0D \<and> d = CHR 0x0A then CHR 0x0A # universal_newlines cs
      else if c = CHR 0x0D then CHR 0x0A # universal_newlines (d # cs)
      else c # universal_newlines (d # cs))"

definition os_read_text :: "world \<Rightarrow> string \<Rightarrow> exn + string" where
  "os_read_text w p =
     (case os_read_bytes w p of
        Inl e \<Rightarrow> Inl e
      | Inr c \<Rightarrow> Inr (universal_newlines c))"

text \<open>
  \<^verbatim>\<open>subprocess.run(cmd, capture_output=True, text=True)\<close>. The launch itself is
  outside the program: \<open>spawn\<close> says, for an argument vector and the world the
  child starts in, whether the launch raised or completed, and what the files
  are afterwards (a child cannot change its parent's working directory). An
  argument that is not a string raises before anything is launched.
\<close>

record completed =
  returncode :: int
  stdout :: string
  stderr :: string

type_synonym spawner = "string list \<Rightarrow> world \<Rightarrow> (exn + completed) \<times> fs"

definition subprocess_run :: "spawner \<Rightarrow> pyval list \<Rightarrow> world \<Rightarrow> (exn + completed) \<times> world" where
  "subprocess_run spawn cmd w =
     (if list_all is_str cmd
      then (case spawn (map the_str cmd) w of (r, f') \<Rightarrow> (r, w\<lparr>files := f'\<rparr>))
      else (Inl (TypeError ''expected str, bytes or os.PathLike object''), w))"

section \<open>cypress\_mcp\_connector.py\<close>

record connector =
  project_path :: string

definition required_dirs :: "string list" where
  "required_dirs = [''cypress'', ''cypress/e2e'', ''cypress/fixtures'']"

fun check_dirs :: "world \<Rightarrow> string \<Rightarrow> string list \<Rightarrow> exn + unit" where
  "check_dirs w pp [] = Inr ()"
| "check_dirs w pp (dir_path # ds) =
     (let full_path = path_join pp [dir_path] in
      if \<not> os_path_exists w full_path
      then Inl (ValueError (''Missing required directory: '' @ full_path))
      else check_dirs w pp ds)"

definition validate_project_structure :: "world \<Rightarrow> connector \<Rightarrow> exn + unit" where
  "validate_project_structure w c = check_dirs w (project_path c) required_dirs"

text \<open>\<^verbatim>\<open>CypressMCPConnector(project_path)\<close>: the object exists only if validation passed.\<close>

definition init_connector :: "world \<Rightarrow> string \<Rightarrow> exn + connector" where
  "init_connector w pp =
     (let c = \<lparr>project_path = pp\<rparr> in
      case validate_project_structure w c of
        Inl e \<Rightarrow> Inl e
      | Inr u \<Rightarrow> Inr c)"

definition is_spec_name :: "string \<Rightarrow> bool" where
  "is_spec_name f \<longleftrightarrow> endswith f ''.cy.js'' \<or> endswith f ''.cy.ts''"

definition list_available_tests :: "world \<Rightarrow> connector \<Rightarrow> exn + string list" where
  "list_available_tests w c =
     (let integration_path = path_join (project_path c) [''cypress'', ''e2e''] in
      case os_listdir w integration_path of
        Inl e \<Rightarrow> Inl e
      | Inr names \<Rightarrow>
          Inr (map (\<lambda>f. path_join ''cypress'' [''e2e'', f]) (filter is_spec_name names)))"

text \<open>Lines 59 to 68 of \<^verbatim>\<open>run_cypress_tests\<close>: the command, built before the \<^verbatim>\<open>try\<close>.\<close>

definition cypress_cmd :: "world \<Rightarrow> connector \<Rightarrow> pyval \<Rightarrow> pyval \<Rightarrow> exn + pyval list" where
  "cypress_cmd w c test_specs browser =
     (case (if \<not> truthy test_specs
            then map_sum id (\<lambda>l. PyList (map PyStr l)) (list_available_tests w c)
            else Inr test_specs) of
        Inl e \<Rightarrow> Inl e
      | Inr specs \<Rightarrow>
          (case py_join '','' specs of
             Inl e \<Rightarrow> Inl e
           | Inr joined \<Rightarrow>
               Inr [PyStr ''npx'', PyStr ''cypress'', PyStr ''run'',
                    PyStr ''--browser'', browser,
                    PyStr ''--spec'', PyStr joined]))"

definition failure_result :: "exn \<Rightarrow> (string \<times> pyval) list" where
  "failure_result e = [(''success'', PyBool False), (''error'', PyStr (py_str e))]"

definition run_result :: "completed \<Rightarrow> (string \<times> pyval) list" where
  "run_result r =
     [(''success'', PyBool (returncode r = 0)),
      (''stdout'', PyStr (stdout r)),
      (''stderr'', PyStr (stderr r)),
      (''return_code'', PyInt (returncode r))]"

text \<open>Lines 70 to 96: the \<^verbatim>\<open>try\<close> block and its handler.\<close>

definition run_try :: "spawner \<Rightarrow> connector \<Rightarrow> pyval list \<Rightarrow> world \<Rightarrow> (string \<times> pyval) list \<times> world" where
  "run_try spawn c cmd w =
     (case os_getcwd w of
        Inl e \<Rightarrow> (failure_result e, w)
      | Inr original_dir \<Rightarrow>
          (case os_chdir (project_path c) w of
             Inl e \<Rightarrow> (failure_result e, w)
           | Inr w1 \<Rightarrow>
               (case subprocess_run spawn cmd w1 of
                  (Inl e, w2) \<Rightarrow> (failure_result e, w2)
                | (Inr result, w2) \<Rightarrow>
                    (case os_chdir original_dir w2 of
                       Inl e \<Rightarrow> (failure_result e, w2)
                     | Inr w3 \<Rightarrow> (run_result result, w3)))))"

definition run_cypress_tests ::
  "spawner \<Rightarrow> connector \<Rightarrow> pyval \<Rightarrow> pyval \<Rightarrow> world \<Rightarrow> (exn + (string \<times> pyval) list) \<times> world" where
  "run_cypress_tests spawn c test_specs browser w =
     (case cypress_cmd w c test_specs browser of
        Inl e \<Rightarrow> (Inl e, w)
      | Inr cmd \<Rightarrow> (case run_try spawn c cmd w of (d, w') \<Rightarrow> (Inr d, w')))"

text \<open>Lines 108 and 109 of \<^verbatim>\<open>create_test_file\<close>.\<close>

definition default_suffix :: "string \<Rightarrow> string" where
  "default_suffix filename =
     (if \<not> endswith filename ''.cy.js'' \<and> \<not> endswith filename ''.cy.ts''
      then filename @ ''.cy.js'' else filename)"

definition create_test_file ::
  "connector \<Rightarrow> pyval \<Rightarrow> pyval \<Rightarrow> world \<Rightarrow> (exn + (string \<times> pyval) list) \<times> world" where
  "create_test_file c filename content w =
     (case filename of
        PyStr fn \<Rightarrow>
          (let file_path = path_join (project_path c)
                             [''cypress'', ''integration'', default_suffix fn] in
           case os_open_w file_path w of
             Inl e \<Rightarrow> (Inr (failure_result e), w)
           | Inr (q, w1) \<Rightarrow>
               (case content of
                  PyStr s \<Rightarrow>
                    (Inr [(''success'', PyBool True), (''file_path'', PyStr file_path)],
                     w1\<lparr>files := (files w1)(q \<mapsto> File s)\<rparr>)
                | _ \<Rightarrow>
                    (Inr (failure_result (TypeError ''write() argument must be str'')), w1)))
      | _ \<Rightarrow> (Inl (AttributeError ''object has no attribute 'endswith' ''), w))"

section \<open>mcp\_websocket\_server.py\<close>

text \<open>
  \<^verbatim>\<open>json.loads\<close> is a parameter: \<open>loads\<close> gives, for a message text, the decoded
  value or the decoding error. A sent message is recorded as the value handed to
  \<^verbatim>\<open>json.dumps\<close>; the peer is assumed connected, so that sending succeeds.
\<close>

type_synonym decoder = "string \<Rightarrow> exn + pyval"

text \<open>Lines 30 to 57: the response, or the exception raised on the way.\<close>

definition dispatch ::
  "spawner \<Rightarrow> connector \<Rightarrow> pyval \<Rightarrow> world \<Rightarrow> (exn + (string \<times> pyval) list) \<times> world" where
  "dispatch spawn c msg_data w =
     (case msg_data of
        PyDict kvs \<Rightarrow>
          if dict_get kvs ''type'' PyNone = PyStr ''list_tests'' then
            (case list_available_tests w c of
               Inl e \<Rightarrow> (Inl e, w)
             | Inr tests \<Rightarrow>
                 (Inr [(''type'', PyStr ''test_list''),
                       (''tests'', PyList (map PyStr tests))], w))
          else if dict_get kvs ''type'' PyNone = PyStr ''run_tests'' then
            (let test_specs = dict_get kvs ''specs'' PyNone;
                 browser = dict_get kvs ''browser'' (PyStr ''chrome'') in
             case run_cypress_tests spawn c test_specs browser w of
               (Inl e, w') \<Rightarrow> (Inl e, w')
             | (Inr d, w') \<Rightarrow> (Inr ((''type'', PyStr ''test_results'') # d), w'))
          else if dict_get kvs ''type'' PyNone = PyStr ''create_test'' then
            (let filename = dict_get kvs ''filename'' PyNone;
                 content = dict_get kvs ''content'' PyNone in
             case create_test_file c filename content w of
               (Inl e, w') \<Rightarrow> (Inl e, w')
             | (Inr d, w') \<Rightarrow> (Inr ((''type'', PyStr ''test_creation'') # d), w'))
          else (Inr [], w)
      | _ \<Rightarrow> (Inl (AttributeError ''object has no attribute 'get' ''), w))"

definition error_envelope :: "exn \<Rightarrow> pyval" where
  "error_envelope e = PyDict [(''type'', PyStr ''error''), (''message'', PyStr (py_str e))]"

text \<open>One round of the loop: what is sent for the message, and the world after.\<close>

definition handle_one ::
  "decoder \<Rightarrow> spawner \<Rightarrow> connector \<Rightarrow> string \<Rightarrow> world \<Rightarrow> pyval list \<times> world" where
  "handle_one loads spawn c message w =
     (case loads message of
        Inl e \<Rightarrow> ([error_envelope e], w)
      | Inr msg_data \<Rightarrow>
          (case dispatch spawn c msg_data w of
             (Inl e, w') \<Rightarrow> ([error_envelope e], w')
           | (Inr response, w') \<Rightarrow> ([PyDict response], w')))"

text \<open>\<^verbatim>\<open>async for message in websocket\<close>: the messages of one connection, in order.\<close>

fun handle_message ::
  "decoder \<Rightarrow> spawner \<Rightarrow> connector \<Rightarrow> string list \<Rightarrow> world \<Rightarrow> pyval list \<times> world" where
  "handle_message loads spawn c [] w = ([], w)"
| "handle_message loads spawn c (message # rest) w =
     (case handle_one loads spawn c message w of
        (sent, w') \<Rightarrow>
          (case handle_message loads spawn c rest w' of
             (sent', w'') \<Rightarrow> (sent @ sent', w'')))"


section \<open>A concrete project, used to run the model\<close>

text \<open>
  A small tree: a home directory, and a project at \<^verbatim>\<open>/proj\<close> whose spec directory
  holds two spec files, a text file and a subdirectory named like a spec. The
  limits on names are those of Linux.
\<close>

definition demo_files :: fs where
  "demo_files = map_of
     [([], Dir [''home'', ''proj'']),
      ([''home''], Dir [''u'']),
      ([''home'', ''u''], Dir []),
      ([''proj''], Dir [''cypress'']),
      ([''proj'', ''cypress''], Dir [''e2e'', ''fixtures'', ''integration'']),
      ([''proj'', ''cypress'', ''e2e''],
         Dir [''login.cy.js'', ''notes.txt'', ''sub.cy.ts'', ''cart.cy.ts'']),
      ([''proj'', ''cypress'', ''e2e'', ''login.cy.js''], File ''it()''),
      ([''proj'', ''cypress'', ''e2e'', ''notes.txt''], File ''todo''),
      ([''proj'', ''cypress'', ''e2e'', ''sub.cy.ts''], Dir []),
      ([''proj'', ''cypress'', ''e2e'', ''cart.cy.ts''], File ''it()''),
      ([''proj'', ''cypress'', ''fixtures''], Dir []),
      ([''proj'', ''cypress'', ''integration''], Dir [])]"

definition demo_world :: world where
  "demo_world = \<lparr>files = demo_files, cwd = [''home'', ''u''],
                   name_max = 255, path_max = 4096\<rparr>"

text \<open>The same layout without \<^verbatim>\<open>cypress/integration\<close>.\<close>

definition bare_files :: fs where
  "bare_files = map_of
     [([], Dir [''home'', ''proj'']),
      ([''home''], Dir [''u'']),
      ([''home'', ''u''], Dir []),
      ([''proj''], Dir [''cypress'']),
      ([''proj'', ''cypress''], Dir [''e2e'', ''fixtures'']),
      ([''proj'', ''cypress'', ''e2e''], Dir []),
      ([''proj'', ''cypress'', ''fixtures''], Dir [])]"

definition bare_world :: world where
  "bare_world = \<lparr>files = bare_files, cwd = [''home'', ''u''],
                   name_max = 255, path_max = 4096\<rparr>"

text \<open>
  A tree in which \<^verbatim>\<open>cypress/e2e\<close> and \<^verbatim>\<open>cypress/fixtures\<close> are regular files,
  not directories.
\<close>

definition flat_files :: fs where
  "flat_files = map_of
     [([], Dir [''home'', ''proj'']),
      ([''home''], Dir [''u'']),
      ([''home'', ''u''], Dir []),
      ([''proj''], Dir [''cypress'']),
      ([''proj'', ''cypress''], Dir [''e2e'', ''fixtures'']),
      ([''proj'', ''cypress'', ''e2e''], File ''x''),
      ([''proj'', ''cypress'', ''fixtures''], File ''y'')]"

definition flat_world :: world where
  "flat_world = \<lparr>files = flat_files, cwd = [''home'', ''u''],
                   name_max = 255, path_max = 4096\<rparr>"

text \<open>The content \<^verbatim>\<open>a\r\nb\n\<close>, and what text mode reads it back as, \<^verbatim>\<open>a\nb\n\<close>.\<close>

definition crlf_content :: string where
  "crlf_content = [CHR ''a'', CHR 0x0D, CHR 0x0A, CHR ''b'', CHR 0x0A]"

definition lf_content :: string where
  "lf_content = [CHR ''a'', CHR 0x0A, CHR ''b'', CHR 0x0A]"

definition demo_conn :: connector where
  "demo_conn = \<lparr>project_path = ''/proj''\<rparr>"

text \<open>A machine without \<^verbatim>\<open>npx\<close>: every launch raises and leaves the files alone.\<close>

definition spawn_missing :: spawner where
  "spawn_missing cmd w = (Inl (FileNotFoundError ''npx''), files w)"

text \<open>
  Four message texts, and a decoder that decodes the three JSON objects among them
  as \<^verbatim>\<open>json.loads\<close> does and refuses every other text (the payload of the error is
  the start of CPython's message).
\<close>

definition bogus_text :: string where
  \<open>bogus_text = ''{"type":"bogus"}''\<close>

definition list_text :: string where
  \<open>list_text = ''{"type":"list_tests"}''\<close>

definition create_text :: string where
  \<open>create_text = ''{"type":"create_test"}''\<close>

definition malformed_text :: string where
  "malformed_text = ''not json''"

definition demo_loads :: decoder where
  "demo_loads m =
     (if m = bogus_text then Inr (PyDict [(''type'', PyStr ''bogus'')])
      else if m = list_text then Inr (PyDict [(''type'', PyStr ''list_tests'')])
      else if m = create_text then Inr (PyDict [(''type'', PyStr ''create_test'')])
      else Inl (JSONDecodeError ''Expecting value''))"

lemmas os_defs =
  path_join_def join2_def path_error_def resolve_def start_dir_def os_path_exists_def
  os_path_isdir_def
  os_listdir_def os_getcwd_def os_chdir_def os_open_w_def os_read_bytes_def os_read_text_def render_def
  subprocess_run_def

lemmas demo_defs =
  demo_files_def demo_world_def bare_files_def bare_world_def flat_files_def flat_world_def
  crlf_content_def lf_content_def demo_conn_def
  spawn_missing_def bogus_text_def list_text_def create_text_def malformed_text_def
  demo_loads_def

section \<open>Facts about strings, paths and the file system\<close>

lemma endswith_iff: "endswith s suf \<longleftrightarrow> (\<exists>stem. s = stem @ suf)"
proof
  assume "endswith s suf"
  then have "s = take (length s - length suf) s @ suf"
    by (metis append_take_drop_id endswith_def)
  then show "\<exists>stem. s = stem @ suf" by blast
next
  assume "\<exists>stem. s = stem @ suf"
  then show "endswith s suf" by (auto simp: endswith_def)
qed

lemma py_join_nil: "py_join sep (PyList []) = Inr []"
  by simp

lemma py_join_strs: "py_join sep (PyList (map PyStr l)) = Inr (str_join sep l)"
proof -
  have "list_all is_str (map PyStr l)" by (induction l) auto
  moreover have "map the_str (map PyStr l) = l" by (induction l) auto
  ultimately show ?thesis by simp
qed

lemma path_join_e2e:
  "CHR ''/'' \<notin> set f \<Longrightarrow> path_join ''cypress'' [''e2e'', f] = ''cypress/e2e/'' @ f"
  by (cases f) (auto simp: path_join_def join2_def)

lemma split_sep_nonempty: "split_sep s \<noteq> []"
  by (induction s) (auto split: list.splits)

lemma split_sep_append:
  "split_sep (a @ CHR ''/'' # b) = split_sep a @ split_sep b"
  by (induction a) (auto split: list.splits simp: split_sep_nonempty)

lemma butlast_split_snoc:
  "butlast (split_sep (a @ CHR ''/'' # b)) = split_sep a @ butlast (split_sep b)"
  by (simp add: split_sep_append butlast_append split_sep_nonempty)

lemma walk_append:
  "walk f nm p cur (xs @ ys) =
     (case walk f nm p cur xs of Inl e \<Rightarrow> Inl e | Inr q \<Rightarrow> walk f nm p q ys)"
  by (induction xs arbitrary: cur) (auto split: option.splits node.splits)

text \<open>
  A walk that succeeds still succeeds, with the same result, in any store that
  keeps every directory a directory; the path named in error messages plays no part.
\<close>

lemma walk_mono:
  assumes "walk f nm p cur cs = Inr q"
    and "\<And>x names. f x = Some (Dir names) \<Longrightarrow> \<exists>names'. f' x = Some (Dir names')"
  shows "walk f' nm p' cur cs = Inr q"
  using assms(1)
proof (induction cs arbitrary: cur)
  case Nil
  then show ?case by simp
next
  case (Cons c cs)
  from Cons.prems obtain names where d: "f cur = Some (Dir names)"
    by (auto split: option.splits node.splits)
  then obtain names' where d': "f' cur = Some (Dir names')"
    using assms(2) by blast
  show ?case using Cons d d' by (auto split: if_splits)
qed

lemma walk_missing:
  assumes "f cur = None" and "cs \<noteq> []"
  shows "\<exists>e. walk f nm p cur cs = Inl e"
  using assms by (cases cs) auto

lemma isdir_exists: "os_path_isdir w p \<Longrightarrow> os_path_exists w p"
  by (auto simp: os_path_isdir_def os_path_exists_def split: sum.splits option.splits node.splits)

text \<open>A path that is refused stays refused when it is extended.\<close>

lemma path_error_extend:
  assumes "path_error w (P @ x) = None"
  shows "path_error w P = None"
  using assms by (auto simp: path_error_def split: if_splits)

text \<open>What was written through \<open>os_open_w\<close> is what a later read of the same path returns.\<close>

lemma open_w_roundtrip:
  assumes "os_open_w p w = Inr (q, w1)"
  shows "os_read_bytes (w1\<lparr>files := (files w1)(q \<mapsto> File s)\<rparr>) p = Inr s"
proof -
  define comps where "comps = split_sep p"
  define name where "name = last comps"
  from assms have pe: "path_error w p = None"
    by (auto simp: os_open_w_def split: option.splits)
  from assms pe have pne: "p \<noteq> []"
    by (auto simp: os_open_w_def split: if_splits)
  from assms pe pne obtain par names where
    wk: "walk (files w) (name_max w) p (start_dir w p) (butlast comps) = Inr par" and
    pd: "files w par = Some (Dir names)" and
    nm: "name \<noteq> []" "name \<noteq> ''.''" "name \<noteq> ''..''" "\<not> name_max w < length name" and
    q: "q = par @ [name]" and
    nd: "\<forall>ns. files w q \<noteq> Some (Dir ns)" and
    cw: "cwd w1 = cwd w" "name_max w1 = name_max w" "path_max w1 = path_max w" and
    f1: "files w1 = (files w)(q \<mapsto> File []) \<or>
         files w1 = (files w)(par \<mapsto> Dir (names @ [name]), q \<mapsto> File [])"
    by (auto simp: os_open_w_def Let_def comps_def name_def
        split: if_splits sum.splits option.splits node.splits)
  let ?w' = "w1\<lparr>files := (files w1)(q \<mapsto> File s)\<rparr>"
  have sd: "start_dir ?w' p = start_dir w p"
    by (simp add: start_dir_def cw)
  have pe': "path_error ?w' p = None"
    using pe by (auto simp: path_error_def cw split: if_splits)
  have keep: "\<And>x ns. files w x = Some (Dir ns) \<Longrightarrow> \<exists>ns'. files ?w' x = Some (Dir ns')"
    using f1 nd by auto
  have w1: "walk (files ?w') (name_max w) p (start_dir w p) (butlast comps) = Inr par"
    by (rule walk_mono[OF wk keep])
  have pd': "\<exists>ns'. files ?w' par = Some (Dir ns')"
    using keep[OF pd] .
  have cs: "comps = butlast comps @ [name]"
    by (simp add: comps_def name_def split_sep_nonempty)
  have "resolve ?w' p =
      walk (files ?w') (name_max w) p (start_dir w p) (butlast comps @ [name])"
    using pne cs by (simp add: resolve_def pe' sd cw comps_def)
  also have "\<dots> = walk (files ?w') (name_max w) p par [name]"
    by (simp only: walk_append w1 sum.case)
  also have "\<dots> = Inr q"
    using pd' nm q by auto
  finally have "resolve ?w' p = Inr q" .
  then show ?thesis by (simp add: os_read_bytes_def)
qed

lemma universal_newlines_id: "CHR 0x0D \<notin> set s \<Longrightarrow> universal_newlines s = s"
  by (induction s rule: universal_newlines.induct) auto

text \<open>Nothing can be opened for writing below a path at which nothing exists.\<close>

lemma open_w_below_missing:
  assumes "\<not> os_path_exists w P" and "P \<noteq> []"
  shows "\<exists>e. os_open_w (P @ CHR ''/'' # name) w = Inl e"
proof (cases "path_error w (P @ CHR ''/'' # name)")
  case (Some e)
  then show ?thesis by (simp add: os_open_w_def)
next
  case None
  let ?p = "P @ CHR ''/'' # name"
  let ?rest = "butlast (split_sep name)"
  let ?f = "files w"
  let ?nm = "name_max w"
  have peP: "path_error w P = None"
    using None by (rule path_error_extend)
  have pne: "?p \<noteq> []" by simp
  have open_eq: "os_open_w ?p w =
      (let comps = split_sep ?p; name = last comps in
        case walk ?f ?nm ?p (start_dir w ?p) (butlast comps) of
          Inl e \<Rightarrow> Inl e
        | Inr par \<Rightarrow>
            (case ?f par of
               None \<Rightarrow> Inl (FileNotFoundError ?p)
             | Some (File _) \<Rightarrow> Inl (NotADirectoryError ?p)
             | Some (Dir names) \<Rightarrow>
                 if name = [] \<or> name = ''.'' \<or> name = ''..''
                 then Inl (IsADirectoryError ?p)
                 else if ?nm < length name then Inl (OSError ?p)
                 else
                   (case ?f (par @ [name]) of
                      Some (Dir _) \<Rightarrow> Inl (IsADirectoryError ?p)
                    | Some (File _) \<Rightarrow>
                        Inr (par @ [name],
                             w\<lparr>files := ?f(par @ [name] \<mapsto> File [])\<rparr>)
                    | None \<Rightarrow>
                        Inr (par @ [name],
                             w\<lparr>files := ?f
                                  (par \<mapsto> Dir (names @ [name]),
                                   par @ [name] \<mapsto> File [])\<rparr>))))"
    unfolding os_open_w_def None using pne by simp
  have sd: "start_dir w ?p = start_dir w P"
    using assms(2) by (simp add: start_dir_def)
  have bl: "butlast (split_sep ?p) = split_sep P @ ?rest"
    by (rule butlast_split_snoc)
  show ?thesis
  proof (cases "walk ?f ?nm ?p (start_dir w P) (split_sep P)")
    case (Inl e)
    then have "walk ?f ?nm ?p (start_dir w ?p) (butlast (split_sep ?p)) = Inl e"
      by (simp only: sd bl walk_append sum.case)
    then show ?thesis unfolding open_eq by (simp add: Let_def)
  next
    case (Inr q)
    then have "walk ?f ?nm P (start_dir w P) (split_sep P) = Inr q"
      by (rule walk_mono) blast
    then have none: "?f q = None"
      using assms peP by (simp add: os_path_exists_def resolve_def)
    have step: "walk ?f ?nm ?p (start_dir w ?p) (butlast (split_sep ?p)) =
                  walk ?f ?nm ?p q ?rest"
      by (simp only: sd bl walk_append Inr sum.case)
    show ?thesis
    proof (cases "?rest = []")
      case True
      then have "walk ?f ?nm ?p (start_dir w ?p) (butlast (split_sep ?p)) = Inr q"
        using step by simp
      then show ?thesis unfolding open_eq using none by (simp add: Let_def)
    next
      case False
      from walk_missing[of ?f q ?rest ?nm ?p, OF none False]
      obtain e where "walk ?f ?nm ?p q ?rest = Inl e"
        by blast
      then have "walk ?f ?nm ?p (start_dir w ?p) (butlast (split_sep ?p)) = Inl e"
        using step by simp
      then show ?thesis unfolding open_eq by (simp add: Let_def)
    qed
  qed
qed

lemma join2_relative:
  assumes "P \<noteq> []" and "last P \<noteq> CHR ''/''" and "b \<noteq> []" and "hd b \<noteq> CHR ''/''"
  shows "join2 P b = P @ CHR ''/'' # b"
  using assms by (simp add: join2_def)

lemma integration_path_shape:
  "path_join root [''cypress'', ''integration''] \<noteq> [] \<and>
   last (path_join root [''cypress'', ''integration'']) \<noteq> CHR ''/''"
  by (simp add: path_join_def join2_def)

lemma default_suffix_shape:
  assumes "fn = [] \<or> hd fn \<noteq> CHR ''/''"
  shows "default_suffix fn \<noteq> [] \<and> hd (default_suffix fn) \<noteq> CHR ''/''"
  using assms by (cases fn) (auto simp: default_suffix_def endswith_def)

section \<open>Facts about the connector and the server\<close>

lemma check_dirs_ok:
  "check_dirs w pp ds = Inr () \<longleftrightarrow> (\<forall>d \<in> set ds. os_path_exists w (path_join pp [d]))"
  by (induction ds) (auto simp: Let_def)

lemma check_dirs_fail:
  "check_dirs w pp ds \<noteq> Inr () \<Longrightarrow>
     \<exists>d \<in> set ds. \<not> os_path_exists w (path_join pp [d]) \<and>
        check_dirs w pp ds = Inl (ValueError (''Missing required directory: '' @ path_join pp [d]))"
  by (induction ds) (auto simp: Let_def)

lemma init_connector_iff:
  "init_connector w root = Inr \<lparr>project_path = root\<rparr> \<longleftrightarrow>
     (\<forall>d \<in> set required_dirs. os_path_exists w (path_join root [d]))"
proof -
  have "init_connector w root = Inr \<lparr>project_path = root\<rparr> \<longleftrightarrow>
          check_dirs w root required_dirs = Inr ()"
    by (auto simp: init_connector_def validate_project_structure_def split: sum.splits)
  then show ?thesis by (simp add: check_dirs_ok)
qed

lemma subprocess_run_spawn_failure:
  assumes "list_all is_str cmd" and "spawn (map the_str cmd) w = (Inl e, f')"
  shows "subprocess_run spawn cmd w = (Inl e, w\<lparr>files := f'\<rparr>)"
  using assms by (simp add: subprocess_run_def)

lemma run_raises_only_before_try:
  "fst (run_cypress_tests spawn c specs browser w) = Inl e \<Longrightarrow>
     cypress_cmd w c specs browser = Inl e"
  by (auto simp: run_cypress_tests_def split: sum.splits prod.splits)

lemma list_tests_response:
  assumes "loads m = Inr (PyDict kvs)" and "dict_get kvs ''type'' PyNone = PyStr ''list_tests''"
    and "list_available_tests w c = Inr l"
  shows "handle_one loads spawn c m w =
          ([PyDict [(''type'', PyStr ''test_list''), (''tests'', PyList (map PyStr l))]], w)"
  using assms by (simp add: handle_one_def dispatch_def)

lemma demo_listing:
  "list_available_tests demo_world demo_conn =
     Inr [''cypress/e2e/login.cy.js'', ''cypress/e2e/sub.cy.ts'', ''cypress/e2e/cart.cy.ts'']"
  by (simp add: list_available_tests_def is_spec_name_def endswith_def os_defs demo_defs)

text \<open>The shape of a successful \<^verbatim>\<open>create_test_file\<close>.\<close>

lemma create_success:
  assumes "create_test_file c filename content w = (Inr d, w')"
    and "dict_get d ''success'' PyNone = PyBool True"
  shows "\<exists>fn s. filename = PyStr fn \<and> content = PyStr s \<and>
           d = [(''success'', PyBool True),
                (''file_path'', PyStr (path_join (project_path c)
                     [''cypress'', ''integration'', default_suffix fn]))] \<and>
           os_read_bytes w' (path_join (project_path c)
                     [''cypress'', ''integration'', default_suffix fn]) = Inr s"
proof -
  from assms(1) obtain fn where fn: "filename = PyStr fn"
    by (cases filename) (simp_all add: create_test_file_def)
  define p where "p = path_join (project_path c) [''cypress'', ''integration'', default_suffix fn]"
  show ?thesis
  proof (cases "os_open_w p w")
    case (Inl e)
    then have "d = failure_result e"
      using assms(1) by (simp add: create_test_file_def fn p_def)
    then show ?thesis using assms(2) by (simp add: failure_result_def dict_get_def)
  next
    case (Inr qw)
    obtain q w1 where qw: "qw = (q, w1)" by (cases qw)
    have op: "os_open_w p w = Inr (q, w1)" using Inr qw by simp
    show ?thesis
    proof (cases "is_str content")
      case False
      then have "d = failure_result (TypeError ''write() argument must be str'')"
        using assms(1) op
        by (cases content) (simp_all add: create_test_file_def fn p_def[symmetric])
      then show ?thesis using assms(2) by (simp add: failure_result_def dict_get_def)
    next
      case True
      then obtain s where s: "content = PyStr s" by (cases content) simp_all
      have d: "d = [(''success'', PyBool True), (''file_path'', PyStr p)]"
        and w': "w' = w1\<lparr>files := (files w1)(q \<mapsto> File s)\<rparr>"
        using assms(1) op s by (simp_all add: create_test_file_def fn p_def[symmetric])
      have "os_read_bytes w' p = Inr s"
        unfolding w' by (rule open_w_roundtrip[OF op])
      then show ?thesis using d s fn by (simp add: p_def)
    qed
  qed
qed


section \<open>The claims\<close>

subsection \<open>C1: the working directory after a run\<close>

text \<open>
  Claim C1 says that on every exit path of \<^verbatim>\<open>run_cypress_tests\<close>, the one where the
  child-process invocation raises included, the working directory after the call
  is the one the caller had before it. The code restores the directory only after a
  launch that returned: when the launch raises, the handler returns the failure
  result and the directory stays the project root. Here the caller is in
  \<^verbatim>\<open>/home/u\<close>, the project is \<^verbatim>\<open>/proj\<close>, and \<^verbatim>\<open>npx\<close> is missing: after the call
  the working directory is \<^verbatim>\<open>/proj\<close>.
\<close>

theorem run_leaves_cwd_at_project_root_when_spawn_raises:
  "cwd demo_world = [''home'', ''u''] \<and>
   run_cypress_tests spawn_missing demo_conn (PyList [PyStr ''cypress/e2e/login.cy.js''])
       (PyStr ''chrome'') demo_world =
     (Inr [(''success'', PyBool False), (''error'', PyStr ''npx'')],
      demo_world\<lparr>cwd := [''proj'']\<rparr>)"
  by (simp add: run_cypress_tests_def cypress_cmd_def run_try_def failure_result_def
      os_defs demo_defs)

subsection \<open>C2: a message of unknown type\<close>

text \<open>
  Claim C2 says that for a well-formed JSON message whose \<^verbatim>\<open>type\<close> is absent or
  is none of the three known ones, nothing at all is sent. The loop sends
  \<^verbatim>\<open>json.dumps(response)\<close> after every dispatch that did not raise, and
  \<^verbatim>\<open>response\<close> starts as the empty dict: for \<^verbatim>\<open>{"type":"bogus"}\<close> one message
  is sent, the empty object.
\<close>

theorem unknown_type_counterexample:
  "demo_loads bogus_text = Inr (PyDict [(''type'', PyStr ''bogus'')]) \<and>
   fst (handle_one demo_loads spawn_missing demo_conn bogus_text demo_world) = [PyDict []] \<and>
   fst (handle_one demo_loads spawn_missing demo_conn bogus_text demo_world) \<noteq> []"
  by (simp add: handle_one_def dispatch_def dict_get_def demo_defs)

text \<open>
  Claim C2, amended: for every message that decodes to a JSON object whose
  \<^verbatim>\<open>type\<close> is absent or is none of \<^verbatim>\<open>list_tests\<close>, \<^verbatim>\<open>run_tests\<close>,
  \<^verbatim>\<open>create_test\<close>, the server sends exactly one response, the empty object, changes
  nothing, and goes on to the next message of the connection.
\<close>

theorem unknown_type_sends_empty_object:
  assumes "loads m = Inr (PyDict kvs)"
    and "dict_get kvs ''type'' PyNone \<noteq> PyStr ''list_tests''"
    and "dict_get kvs ''type'' PyNone \<noteq> PyStr ''run_tests''"
    and "dict_get kvs ''type'' PyNone \<noteq> PyStr ''create_test''"
  shows "handle_one loads spawn c m w = ([PyDict []], w)
       \<and> handle_message loads spawn c (m # rest) w =
           (PyDict [] # fst (handle_message loads spawn c rest w),
            snd (handle_message loads spawn c rest w))"
proof -
  have one: "handle_one loads spawn c m w = ([PyDict []], w)"
    using assms by (simp add: handle_one_def dispatch_def)
  then show ?thesis by (simp add: split_beta)
qed

theorem unknown_type_sends_empty_object_witness:
  "demo_loads bogus_text = Inr (PyDict [(''type'', PyStr ''bogus'')]) \<and>
   handle_message demo_loads spawn_missing demo_conn [bogus_text, list_text] demo_world =
     ([PyDict [],
       PyDict [(''type'', PyStr ''test_list''),
               (''tests'', PyList [PyStr ''cypress/e2e/login.cy.js'',
                                   PyStr ''cypress/e2e/sub.cy.ts'',
                                   PyStr ''cypress/e2e/cart.cy.ts''])]],
      demo_world)"
proof -
  have l: "demo_loads bogus_text = Inr (PyDict [(''type'', PyStr ''bogus'')])"
    by (simp add: demo_defs)
  have t: "dict_get [(''type'', PyStr ''bogus'')] ''type'' PyNone = PyStr ''bogus''"
    by (simp add: dict_get_def)
  have next_one: "handle_one demo_loads spawn_missing demo_conn list_text demo_world =
      ([PyDict [(''type'', PyStr ''test_list''),
               (''tests'', PyList [PyStr ''cypress/e2e/login.cy.js'',
                                   PyStr ''cypress/e2e/sub.cy.ts'',
                                   PyStr ''cypress/e2e/cart.cy.ts''])]], demo_world)"
    using list_tests_response[of demo_loads list_text "[(''type'', PyStr ''list_tests'')]"
        demo_world demo_conn _ spawn_missing, OF _ _ demo_listing]
    by (simp add: dict_get_def demo_defs)
  from unknown_type_sends_empty_object[of demo_loads bogus_text "[(''type'', PyStr ''bogus'')]"
      spawn_missing demo_conn demo_world "[list_text]", OF l]
  show ?thesis using l next_one by (simp add: t)
qed

subsection \<open>C3: listing the spec directory\<close>

text \<open>
  Claim C3 says that \<^verbatim>\<open>list_available_tests\<close> returns the entries whose names end
  with \<^verbatim>\<open>.cy.js\<close> or \<^verbatim>\<open>.cy.ts\<close> and excludes every other entry, subdirectories
  included. The code looks at names only: \<^verbatim>\<open>os.listdir\<close> also yields the names of
  subdirectories, and no test of the entry's kind follows. In the project below,
  \<^verbatim>\<open>cypress/e2e/sub.cy.ts\<close> is a directory, and it is returned.
\<close>

theorem list_returns_subdirectory_counterexample:
  "os_path_isdir demo_world ''/proj/cypress/e2e/sub.cy.ts'' \<and>
   list_available_tests demo_world demo_conn =
     Inr [''cypress/e2e/login.cy.js'', ''cypress/e2e/sub.cy.ts'', ''cypress/e2e/cart.cy.ts'']"
  by (simp add: list_available_tests_def is_spec_name_def endswith_def os_defs demo_defs)

text \<open>
  Claim C3, amended: whenever the spec directory can be listed,
  \<^verbatim>\<open>list_available_tests\<close> returns, in enumeration order and under the prefix
  \<^verbatim>\<open>cypress/e2e/\<close>, exactly the entries of that directory (not of directories
  below it) whose names end with \<^verbatim>\<open>.cy.js\<close> or \<^verbatim>\<open>.cy.ts\<close>, whatever their kind,
  and excludes every entry with another name, including entries with another
  extension and subdirectories with another name.
\<close>

theorem list_filters_by_name_only:
  assumes "os_listdir w (path_join (project_path c) [''cypress'', ''e2e'']) = Inr names"
    and "\<forall>f \<in> set names. CHR ''/'' \<notin> set f"
  shows "list_available_tests w c =
           Inr (map (\<lambda>f. ''cypress/e2e/'' @ f)
                  (filter (\<lambda>f. (\<exists>stem. f = stem @ ''.cy.js'') \<or> (\<exists>stem. f = stem @ ''.cy.ts''))
                     names))"
proof -
  have "map (\<lambda>f. path_join ''cypress'' [''e2e'', f]) (filter is_spec_name names)
      = map (\<lambda>f. ''cypress/e2e/'' @ f) (filter is_spec_name names)"
    using assms(2) by (intro map_cong) (auto simp: path_join_e2e)
  moreover have "is_spec_name =
      (\<lambda>f. (\<exists>stem. f = stem @ ''.cy.js'') \<or> (\<exists>stem. f = stem @ ''.cy.ts''))"
    by (rule ext) (simp add: is_spec_name_def endswith_iff)
  ultimately show ?thesis using assms(1) by (simp add: list_available_tests_def)
qed

theorem list_filters_by_name_only_witness:
  "os_listdir demo_world (path_join (project_path demo_conn) [''cypress'', ''e2e'']) =
     Inr [''login.cy.js'', ''notes.txt'', ''sub.cy.ts'', ''cart.cy.ts''] \<and>
   list_available_tests demo_world demo_conn =
     Inr (map (\<lambda>f. ''cypress/e2e/'' @ f)
            (filter (\<lambda>f. (\<exists>stem. f = stem @ ''.cy.js'') \<or> (\<exists>stem. f = stem @ ''.cy.ts''))
               [''login.cy.js'', ''notes.txt'', ''sub.cy.ts'', ''cart.cy.ts'']))"
proof -
  have l: "os_listdir demo_world (path_join (project_path demo_conn) [''cypress'', ''e2e'']) =
     Inr [''login.cy.js'', ''notes.txt'', ''sub.cy.ts'', ''cart.cy.ts'']"
    by (simp add: os_defs demo_defs)
  have s: "\<forall>f \<in> set [''login.cy.js'', ''notes.txt'', ''sub.cy.ts'', ''cart.cy.ts''].
             CHR ''/'' \<notin> set f"
    by simp
  from list_filters_by_name_only[OF l s] l show ?thesis by simp
qed

subsection \<open>C4: errors at the per-message boundary\<close>

text \<open>
  Claim C4: for every message, if decoding it fails or the handler it is
  dispatched to raises (\<^verbatim>\<open>list_available_tests\<close> for \<^verbatim>\<open>list_tests\<close>,
  \<^verbatim>\<open>run_cypress_tests\<close> for \<^verbatim>\<open>run_tests\<close>, \<^verbatim>\<open>create_test_file\<close> for
  \<^verbatim>\<open>create_test\<close>, each called with the fields of the message), the server sends
  the envelope \<^verbatim>\<open>{type: "error", message: str(e)}\<close> for that message and the loop
  goes on: the messages after it on the same connection are processed, in the
  world the failed message left.
\<close>

theorem handler_fault_yields_error_envelope:
  assumes "loads m = Inl e
     \<or> (\<exists>kvs. loads m = Inr (PyDict kvs) \<and>
            dict_get kvs ''type'' PyNone = PyStr ''list_tests'' \<and>
            list_available_tests w c = Inl e)
     \<or> (\<exists>kvs. loads m = Inr (PyDict kvs) \<and>
            dict_get kvs ''type'' PyNone = PyStr ''run_tests'' \<and>
            fst (run_cypress_tests spawn c (dict_get kvs ''specs'' PyNone)
                   (dict_get kvs ''browser'' (PyStr ''chrome'')) w) = Inl e)
     \<or> (\<exists>kvs. loads m = Inr (PyDict kvs) \<and>
            dict_get kvs ''type'' PyNone = PyStr ''create_test'' \<and>
            fst (create_test_file c (dict_get kvs ''filename'' PyNone)
                   (dict_get kvs ''content'' PyNone) w) = Inl e)"
  shows "fst (handle_one loads spawn c m w) = [error_envelope e]
       \<and> handle_message loads spawn c (m # rest) w =
           (error_envelope e #
              fst (handle_message loads spawn c rest (snd (handle_one loads spawn c m w))),
            snd (handle_message loads spawn c rest (snd (handle_one loads spawn c m w))))"
proof -
  have one: "fst (handle_one loads spawn c m w) = [error_envelope e]"
    using assms
    by (auto simp: handle_one_def dispatch_def Let_def split: prod.splits sum.splits)
  then show ?thesis by (simp add: split_beta)
qed

theorem handler_fault_yields_error_envelope_witness:
  "demo_loads malformed_text = Inl (JSONDecodeError ''Expecting value'') \<and>
   demo_loads create_text = Inr (PyDict [(''type'', PyStr ''create_test'')]) \<and>
   fst (create_test_file demo_conn PyNone PyNone demo_world) =
     Inl (AttributeError ''object has no attribute 'endswith' '') \<and>
   fst (handle_message demo_loads spawn_missing demo_conn
          [malformed_text, create_text, list_text] demo_world) =
     [PyDict [(''type'', PyStr ''error''), (''message'', PyStr ''Expecting value'')],
      PyDict [(''type'', PyStr ''error''),
              (''message'', PyStr ''object has no attribute 'endswith' '')],
      PyDict [(''type'', PyStr ''test_list''),
              (''tests'', PyList [PyStr ''cypress/e2e/login.cy.js'',
                                  PyStr ''cypress/e2e/sub.cy.ts'',
                                  PyStr ''cypress/e2e/cart.cy.ts''])]]"
proof -
  let ?bad = "JSONDecodeError ''Expecting value''"
  let ?attr = "AttributeError ''object has no attribute 'endswith' ''"
  have l1: "demo_loads malformed_text = Inl ?bad"
    by (simp add: demo_defs)
  have l2: "demo_loads create_text = Inr (PyDict [(''type'', PyStr ''create_test'')])"
    by (simp add: demo_defs)
  have raised: "create_test_file demo_conn PyNone PyNone demo_world = (Inl ?attr, demo_world)"
    by (simp add: create_test_file_def)
  have w1: "snd (handle_one demo_loads spawn_missing demo_conn malformed_text demo_world) =
      demo_world"
    by (simp add: handle_one_def l1)
  have w2: "snd (handle_one demo_loads spawn_missing demo_conn create_text demo_world) =
      demo_world"
    by (simp add: handle_one_def l2 dispatch_def dict_get_def raised)
  have third: "handle_one demo_loads spawn_missing demo_conn list_text demo_world =
      ([PyDict [(''type'', PyStr ''test_list''),
               (''tests'', PyList [PyStr ''cypress/e2e/login.cy.js'',
                                   PyStr ''cypress/e2e/sub.cy.ts'',
                                   PyStr ''cypress/e2e/cart.cy.ts''])]], demo_world)"
    using list_tests_response[of demo_loads list_text "[(''type'', PyStr ''list_tests'')]"
        demo_world demo_conn _ spawn_missing, OF _ _ demo_listing]
    by (simp add: dict_get_def demo_defs)
  have h2: "\<exists>kvs. demo_loads create_text = Inr (PyDict kvs) \<and>
            dict_get kvs ''type'' PyNone = PyStr ''create_test'' \<and>
            fst (create_test_file demo_conn (dict_get kvs ''filename'' PyNone)
                   (dict_get kvs ''content'' PyNone) demo_world) = Inl ?attr"
    using l2 raised by (simp add: dict_get_def)
  have second: "handle_message demo_loads spawn_missing demo_conn
        [create_text, list_text] demo_world =
      (error_envelope ?attr #
         fst (handle_message demo_loads spawn_missing demo_conn [list_text] demo_world),
       snd (handle_message demo_loads spawn_missing demo_conn [list_text] demo_world))"
    using handler_fault_yields_error_envelope[of demo_loads create_text ?attr demo_world
        demo_conn spawn_missing "[list_text]"] h2 w2
    by simp
  have first: "handle_message demo_loads spawn_missing demo_conn
        [malformed_text, create_text, list_text] demo_world =
      (error_envelope ?bad #
         fst (handle_message demo_loads spawn_missing demo_conn
                [create_text, list_text] demo_world),
       snd (handle_message demo_loads spawn_missing demo_conn
                [create_text, list_text] demo_world))"
    using handler_fault_yields_error_envelope[of demo_loads malformed_text ?bad demo_world
        demo_conn spawn_missing "[create_text, list_text]"] l1 w1
    by simp
  show ?thesis
    unfolding first second using l1 l2 raised third
    by (simp add: error_envelope_def)
qed

subsection \<open>C5: construction\<close>

text \<open>
  Claim C5 says that construction succeeds when all required subdirectories exist
  and fails, leaving no usable object, when any one of them is absent. The code
  tests each required path with \<^verbatim>\<open>os.path.exists\<close> and nothing tests that the
  entry is a directory: in the tree below \<^verbatim>\<open>cypress/e2e\<close> and
  \<^verbatim>\<open>cypress/fixtures\<close> are regular files, so two required subdirectories are
  absent, yet construction succeeds, and the connector it returns cannot list the
  specs.
\<close>

theorem construction_accepts_files_counterexample:
  "\<not> os_path_isdir flat_world ''/proj/cypress/e2e'' \<and>
   \<not> os_path_isdir flat_world ''/proj/cypress/fixtures'' \<and>
   init_connector flat_world ''/proj'' = Inr demo_conn \<and>
   list_available_tests flat_world demo_conn = Inl (NotADirectoryError ''/proj/cypress/e2e'')"
  by (simp add: init_connector_def validate_project_structure_def required_dirs_def
      list_available_tests_def os_defs demo_defs)

text \<open>
  Claim C5, amended: construction succeeds, and binds the connector to the root,
  exactly when an entry of any kind exists at every required path (\<^verbatim>\<open>cypress\<close>,
  \<^verbatim>\<open>cypress/e2e\<close>, \<^verbatim>\<open>cypress/fixtures\<close> under the root); in particular it
  succeeds when all three are directories. When nothing exists at one of them,
  construction raises the \<^verbatim>\<open>ValueError\<close> naming a missing path, and no connector
  comes into being.
\<close>

theorem construction_all_or_nothing:
  "(init_connector w root = Inr \<lparr>project_path = root\<rparr> \<longleftrightarrow>
      (\<forall>d \<in> set required_dirs. os_path_exists w (path_join root [d]))) \<and>
   ((\<forall>d \<in> set required_dirs. os_path_isdir w (path_join root [d])) \<longrightarrow>
      init_connector w root = Inr \<lparr>project_path = root\<rparr>) \<and>
   ((\<exists>d \<in> set required_dirs. \<not> os_path_exists w (path_join root [d])) \<longrightarrow>
      (\<exists>d \<in> set required_dirs.
         \<not> os_path_exists w (path_join root [d]) \<and>
         init_connector w root =
           Inl (ValueError (''Missing required directory: '' @ path_join root [d]))))"
proof (intro conjI impI)
  show "init_connector w root = Inr \<lparr>project_path = root\<rparr> \<longleftrightarrow>
      (\<forall>d \<in> set required_dirs. os_path_exists w (path_join root [d]))"
    by (rule init_connector_iff)
next
  assume "\<forall>d \<in> set required_dirs. os_path_isdir w (path_join root [d])"
  then show "init_connector w root = Inr \<lparr>project_path = root\<rparr>"
    by (simp add: init_connector_iff isdir_exists)
next
  assume "\<exists>d \<in> set required_dirs. \<not> os_path_exists w (path_join root [d])"
  then have "check_dirs w root required_dirs \<noteq> Inr ()"
    by (simp add: check_dirs_ok)
  from check_dirs_fail[OF this]
  show "\<exists>d \<in> set required_dirs.
         \<not> os_path_exists w (path_join root [d]) \<and>
         init_connector w root =
           Inl (ValueError (''Missing required directory: '' @ path_join root [d]))"
    by (auto simp: init_connector_def validate_project_structure_def)
qed

theorem construction_all_or_nothing_witness:
  "os_path_isdir demo_world ''/proj/cypress'' \<and>
   os_path_isdir demo_world ''/proj/cypress/e2e'' \<and>
   os_path_isdir demo_world ''/proj/cypress/fixtures'' \<and>
   init_connector demo_world ''/proj'' = Inr \<lparr>project_path = ''/proj''\<rparr> \<and>
   \<not> os_path_exists demo_world ''/home/cypress'' \<and>
   init_connector demo_world ''/home'' =
     Inl (ValueError ''Missing required directory: /home/cypress'')"
proof -
  have dirs: "os_path_isdir demo_world ''/proj/cypress'' \<and>
      os_path_isdir demo_world ''/proj/cypress/e2e'' \<and>
      os_path_isdir demo_world ''/proj/cypress/fixtures''"
    by (simp add: os_defs demo_defs)
  then have all_dirs:
    "\<forall>d \<in> set required_dirs. os_path_isdir demo_world (path_join ''/proj'' [d])"
    by (simp add: required_dirs_def path_join_def join2_def)
  have missing: "\<not> os_path_exists demo_world ''/home/cypress''"
    by (simp add: os_defs demo_defs)
  have fail: "init_connector demo_world ''/home'' =
      Inl (ValueError ''Missing required directory: /home/cypress'')"
    by (simp add: init_connector_def validate_project_structure_def required_dirs_def
        os_defs demo_defs)
  from construction_all_or_nothing[of demo_world "''/proj''"] all_dirs
  have ok: "init_connector demo_world ''/proj'' = Inr \<lparr>project_path = ''/proj''\<rparr>"
    by blast
  with dirs missing fail show ?thesis by blast
qed

subsection \<open>C6: no specs means all specs\<close>

text \<open>
  Claim C6: when \<^verbatim>\<open>list_available_tests\<close> returns a list, a run with no spec list
  (\<^verbatim>\<open>None\<close>) or with the empty list builds the same command as a run with that
  list: \<^verbatim>\<open>npx cypress run --browser b --spec s\<close> with \<open>s\<close> the comma-joined list.
  The whole call then has the same outcome.
\<close>

theorem empty_specs_same_command:
  assumes "list_available_tests w c = Inr l"
  shows "cypress_cmd w c PyNone browser = cypress_cmd w c (PyList (map PyStr l)) browser
       \<and> cypress_cmd w c (PyList []) browser = cypress_cmd w c (PyList (map PyStr l)) browser
       \<and> cypress_cmd w c (PyList (map PyStr l)) browser =
           Inr [PyStr ''npx'', PyStr ''cypress'', PyStr ''run'', PyStr ''--browser'', browser,
                PyStr ''--spec'', PyStr (str_join '','' l)]
       \<and> run_cypress_tests spawn c PyNone browser w =
           run_cypress_tests spawn c (PyList (map PyStr l)) browser w
       \<and> run_cypress_tests spawn c (PyList []) browser w =
           run_cypress_tests spawn c (PyList (map PyStr l)) browser w"
proof -
  have full: "cypress_cmd w c (PyList (map PyStr l)) browser =
           Inr [PyStr ''npx'', PyStr ''cypress'', PyStr ''run'', PyStr ''--browser'', browser,
                PyStr ''--spec'', PyStr (str_join '','' l)]"
    using assms
    by (cases "l = []")
      (simp_all add: cypress_cmd_def py_join_strs py_join_nil del: py_join.simps)
  have none: "cypress_cmd w c PyNone browser = cypress_cmd w c (PyList (map PyStr l)) browser"
    unfolding full using assms
    by (simp add: cypress_cmd_def py_join_strs py_join_nil del: py_join.simps)
  have emp: "cypress_cmd w c (PyList []) browser = cypress_cmd w c (PyList (map PyStr l)) browser"
    unfolding full using assms
    by (simp add: cypress_cmd_def py_join_strs py_join_nil del: py_join.simps)
  show ?thesis using full none emp by (simp add: run_cypress_tests_def)
qed

theorem empty_specs_same_command_witness:
  "list_available_tests demo_world demo_conn =
     Inr [''cypress/e2e/login.cy.js'', ''cypress/e2e/sub.cy.ts'', ''cypress/e2e/cart.cy.ts''] \<and>
   cypress_cmd demo_world demo_conn PyNone (PyStr ''chrome'') =
     Inr [PyStr ''npx'', PyStr ''cypress'', PyStr ''run'', PyStr ''--browser'', PyStr ''chrome'',
          PyStr ''--spec'',
          PyStr ''cypress/e2e/login.cy.js,cypress/e2e/sub.cy.ts,cypress/e2e/cart.cy.ts''] \<and>
   cypress_cmd demo_world demo_conn (PyList []) (PyStr ''chrome'') =
     cypress_cmd demo_world demo_conn
       (PyList [PyStr ''cypress/e2e/login.cy.js'', PyStr ''cypress/e2e/sub.cy.ts'',
                PyStr ''cypress/e2e/cart.cy.ts'']) (PyStr ''chrome'')"
  using empty_specs_same_command[OF demo_listing, of "PyStr ''chrome''" spawn_missing]
    demo_listing
  by simp

subsection \<open>C7: what is written is what is read\<close>

text \<open>
  Claim C7 says that for every content, reading the file at the returned path
  after \<^verbatim>\<open>create_test_file\<close> yields exactly the content. The file body is exactly
  the content, but \<^verbatim>\<open>open(path).read()\<close> reads in text mode and translates
  newlines: the content \<^verbatim>\<open>a\r\nb\n\<close> is stored as it is and read back as
  \<^verbatim>\<open>a\nb\n\<close>.
\<close>

theorem text_read_translates_newlines_counterexample:
  "fst (create_test_file demo_conn (PyStr ''nl'') (PyStr crlf_content) demo_world) =
     Inr [(''success'', PyBool True),
          (''file_path'', PyStr ''/proj/cypress/integration/nl.cy.js'')] \<and>
   os_read_text (snd (create_test_file demo_conn (PyStr ''nl'') (PyStr crlf_content) demo_world))
     ''/proj/cypress/integration/nl.cy.js'' = Inr lf_content \<and>
   lf_content \<noteq> crlf_content"
  by (simp add: create_test_file_def default_suffix_def endswith_def Let_def
      os_defs demo_defs)

text \<open>
  Claim C7, amended: whenever \<^verbatim>\<open>create_test_file\<close> reports success, the content it
  was given is a string and the body of the file at the returned \<^verbatim>\<open>file_path\<close> is
  exactly that string (a binary read returns it), whether the file existed before
  or not: the write replaces the whole body. A text-mode read returns the content
  with every \<^verbatim>\<open>\r\n\<close> and \<^verbatim>\<open>\r\<close> turned into \<^verbatim>\<open>\n\<close>, hence exactly the
  content when it holds no carriage return.
\<close>

theorem write_then_read_roundtrip:
  assumes "create_test_file c filename content w = (Inr d, w')"
    and "dict_get d ''success'' PyNone = PyBool True"
  shows "\<exists>p s. dict_get d ''file_path'' PyNone = PyStr p \<and> content = PyStr s \<and>
               os_read_bytes w' p = Inr s \<and>
               os_read_text w' p = Inr (universal_newlines s) \<and>
               (CHR 0x0D \<notin> set s \<longrightarrow> os_read_text w' p = Inr s)"
  using create_success[OF assms]
  by (auto simp: dict_get_def os_read_text_def universal_newlines_id)

theorem write_then_read_roundtrip_witness:
  "fst (create_test_file demo_conn (PyStr ''login'') (PyStr ''X'') demo_world) =
     Inr [(''success'', PyBool True),
          (''file_path'', PyStr ''/proj/cypress/integration/login.cy.js'')] \<and>
   os_read_bytes (snd (create_test_file demo_conn (PyStr ''login'') (PyStr ''X'') demo_world))
     ''/proj/cypress/integration/login.cy.js'' = Inr ''X'' \<and>
   os_read_text (snd (create_test_file demo_conn (PyStr ''login'') (PyStr ''X'') demo_world))
     ''/proj/cypress/integration/login.cy.js'' = Inr ''X''"
proof -
  let ?r = "create_test_file demo_conn (PyStr ''login'') (PyStr ''X'') demo_world"
  let ?d = "[(''success'', PyBool True),
             (''file_path'', PyStr ''/proj/cypress/integration/login.cy.js'')]"
  have f: "fst ?r = Inr ?d"
    by (simp add: create_test_file_def default_suffix_def endswith_def Let_def
        os_defs demo_defs)
  then have r: "?r = (Inr ?d, snd ?r)"
    by (simp add: prod_eq_iff)
  have ok: "dict_get ?d ''success'' PyNone = PyBool True"
    by (simp add: dict_get_def)
  from write_then_read_roundtrip[OF r ok]
  have "os_read_bytes (snd ?r) ''/proj/cypress/integration/login.cy.js'' = Inr ''X'' \<and>
        os_read_text (snd ?r) ''/proj/cypress/integration/login.cy.js'' = Inr ''X''"
    by (auto simp: dict_get_def)
  with f show ?thesis by simp
qed

subsection \<open>C8: the default suffix\<close>

text \<open>
  Claim C8: whenever \<^verbatim>\<open>create_test_file\<close> reports success for a filename that
  ends with neither \<^verbatim>\<open>.cy.js\<close> nor \<^verbatim>\<open>.cy.ts\<close>, it has done exactly what it
  does for that filename followed by \<^verbatim>\<open>.cy.js\<close>, the file it reports is
  \<^verbatim>\<open>cypress/integration/<filename>.cy.js\<close> under the root, and after the call
  that file exists and holds the content. For a filename that already ends with one
  of the two suffixes, the reported file carries the filename unchanged, and after
  the call that file exists and holds the content.
\<close>

theorem suffix_default_or_preserved:
  assumes "create_test_file c (PyStr fn) content w = (Inr d, w')"
    and "dict_get d ''success'' PyNone = PyBool True"
  shows "(\<not> (\<exists>stem. fn = stem @ ''.cy.js'') \<and> \<not> (\<exists>stem. fn = stem @ ''.cy.ts'') \<longrightarrow>
            create_test_file c (PyStr fn) content w =
              create_test_file c (PyStr (fn @ ''.cy.js'')) content w \<and>
            dict_get d ''file_path'' PyNone =
              PyStr (path_join (project_path c) [''cypress'', ''integration'', fn @ ''.cy.js'']) \<and>
            (\<exists>s. content = PyStr s \<and>
               os_read_bytes w'
                 (path_join (project_path c) [''cypress'', ''integration'', fn @ ''.cy.js'']) =
               Inr s))
       \<and> ((\<exists>stem. fn = stem @ ''.cy.js'') \<or> (\<exists>stem. fn = stem @ ''.cy.ts'') \<longrightarrow>
            dict_get d ''file_path'' PyNone =
              PyStr (path_join (project_path c) [''cypress'', ''integration'', fn]) \<and>
            (\<exists>s. content = PyStr s \<and>
               os_read_bytes w'
                 (path_join (project_path c) [''cypress'', ''integration'', fn]) = Inr s))"
proof -
  from create_success[OF assms]
  obtain s where s: "content = PyStr s"
    and fp: "dict_get d ''file_path'' PyNone =
      PyStr (path_join (project_path c) [''cypress'', ''integration'', default_suffix fn])"
    and rd: "os_read_bytes w'
      (path_join (project_path c) [''cypress'', ''integration'', default_suffix fn]) = Inr s"
    by (auto simp: dict_get_def)
  have added: "default_suffix (fn @ ''.cy.js'') = fn @ ''.cy.js''"
    by (simp add: default_suffix_def endswith_iff)
  show ?thesis
  proof (intro conjI impI)
    assume lacking: "\<not> (\<exists>stem. fn = stem @ ''.cy.js'') \<and> \<not> (\<exists>stem. fn = stem @ ''.cy.ts'')"
    then have ds: "default_suffix fn = fn @ ''.cy.js''"
      by (simp add: default_suffix_def endswith_iff)
    show "create_test_file c (PyStr fn) content w =
            create_test_file c (PyStr (fn @ ''.cy.js'')) content w"
      by (simp add: create_test_file_def ds added)
    show "dict_get d ''file_path'' PyNone =
            PyStr (path_join (project_path c) [''cypress'', ''integration'', fn @ ''.cy.js''])"
      using fp ds by simp
    show "\<exists>s. content = PyStr s \<and>
               os_read_bytes w'
                 (path_join (project_path c) [''cypress'', ''integration'', fn @ ''.cy.js'']) =
               Inr s"
      using s rd ds by simp
  next
    assume "(\<exists>stem. fn = stem @ ''.cy.js'') \<or> (\<exists>stem. fn = stem @ ''.cy.ts'')"
    then have ds: "default_suffix fn = fn"
      by (simp add: default_suffix_def endswith_iff)
    show "dict_get d ''file_path'' PyNone =
            PyStr (path_join (project_path c) [''cypress'', ''integration'', fn])"
      using fp ds by simp
    show "\<exists>s. content = PyStr s \<and>
               os_read_bytes w'
                 (path_join (project_path c) [''cypress'', ''integration'', fn]) = Inr s"
      using s rd ds by simp
  qed
qed

theorem suffix_default_or_preserved_witness:
  "os_read_bytes demo_world ''/proj/cypress/integration/foo.cy.js'' =
     Inl (FileNotFoundError ''/proj/cypress/integration/foo.cy.js'') \<and>
   fst (create_test_file demo_conn (PyStr ''foo'') (PyStr ''X'') demo_world) =
     Inr [(''success'', PyBool True),
          (''file_path'', PyStr ''/proj/cypress/integration/foo.cy.js'')] \<and>
   os_read_bytes (snd (create_test_file demo_conn (PyStr ''foo'') (PyStr ''X'') demo_world))
     ''/proj/cypress/integration/foo.cy.js'' = Inr ''X'' \<and>
   os_listdir (snd (create_test_file demo_conn (PyStr ''foo'') (PyStr ''X'') demo_world))
     ''/proj/cypress/integration'' = Inr [''foo.cy.js''] \<and>
   create_test_file demo_conn (PyStr ''foo'') (PyStr ''X'') demo_world =
     create_test_file demo_conn (PyStr ''foo.cy.js'') (PyStr ''X'') demo_world \<and>
   fst (create_test_file demo_conn (PyStr ''foo.cy.ts'') (PyStr ''X'') demo_world) =
     Inr [(''success'', PyBool True),
          (''file_path'', PyStr ''/proj/cypress/integration/foo.cy.ts'')] \<and>
   os_read_bytes (snd (create_test_file demo_conn (PyStr ''foo.cy.ts'') (PyStr ''X'') demo_world))
     ''/proj/cypress/integration/foo.cy.ts'' = Inr ''X'' \<and>
   os_listdir (snd (create_test_file demo_conn (PyStr ''foo.cy.ts'') (PyStr ''X'') demo_world))
     ''/proj/cypress/integration'' = Inr [''foo.cy.ts'']"
proof -
  let ?r = "create_test_file demo_conn (PyStr ''foo'') (PyStr ''X'') demo_world"
  let ?d = "[(''success'', PyBool True),
             (''file_path'', PyStr ''/proj/cypress/integration/foo.cy.js'')]"
  let ?t = "create_test_file demo_conn (PyStr ''foo.cy.ts'') (PyStr ''X'') demo_world"
  let ?e = "[(''success'', PyBool True),
             (''file_path'', PyStr ''/proj/cypress/integration/foo.cy.ts'')]"
  have before: "os_read_bytes demo_world ''/proj/cypress/integration/foo.cy.js'' =
      Inl (FileNotFoundError ''/proj/cypress/integration/foo.cy.js'')"
    by (simp add: os_defs demo_defs)
  have f: "fst ?r = Inr ?d"
    by (simp add: create_test_file_def default_suffix_def endswith_def Let_def
        os_defs demo_defs)
  then have r: "?r = (Inr ?d, snd ?r)"
    by (simp add: prod_eq_iff)
  have g: "fst ?t = Inr ?e"
    by (simp add: create_test_file_def default_suffix_def endswith_def Let_def
        os_defs demo_defs)
  then have t: "?t = (Inr ?e, snd ?t)"
    by (simp add: prod_eq_iff)
  have ok: "dict_get ?d ''success'' PyNone = PyBool True"
    "dict_get ?e ''success'' PyNone = PyBool True"
    by (simp_all add: dict_get_def)
  have lacking: "\<not> (\<exists>stem. ''foo'' = stem @ ''.cy.js'') \<and> \<not> (\<exists>stem. ''foo'' = stem @ ''.cy.ts'')"
    unfolding endswith_iff[symmetric] by (simp add: endswith_def)
  have having: "(\<exists>stem. ''foo.cy.ts'' = stem @ ''.cy.js'') \<or> (\<exists>stem. ''foo.cy.ts'' = stem @ ''.cy.ts'')"
    unfolding endswith_iff[symmetric] by (simp add: endswith_def)
  from suffix_default_or_preserved[OF r ok(1)] lacking
  have js: "?r = create_test_file demo_conn (PyStr ''foo.cy.js'') (PyStr ''X'') demo_world"
    "os_read_bytes (snd ?r) ''/proj/cypress/integration/foo.cy.js'' = Inr ''X''"
    by (auto simp: demo_conn_def path_join_def join2_def)
  from suffix_default_or_preserved[OF t ok(2)] having
  have ts: "os_read_bytes (snd ?t) ''/proj/cypress/integration/foo.cy.ts'' = Inr ''X''"
    by (auto simp: demo_conn_def path_join_def join2_def)
  have ljs: "os_listdir (snd ?r) ''/proj/cypress/integration'' = Inr [''foo.cy.js'']"
    by (simp add: create_test_file_def default_suffix_def endswith_def Let_def
        os_defs demo_defs)
  have lts: "os_listdir (snd ?t) ''/proj/cypress/integration'' = Inr [''foo.cy.ts'']"
    by (simp add: create_test_file_def default_suffix_def endswith_def Let_def
        os_defs demo_defs)
  from before f js g ts ljs lts show ?thesis by simp
qed

subsection \<open>C9: a launch that fails\<close>

text \<open>
  Claim C9: once the command is built, \<^verbatim>\<open>run_cypress_tests\<close> never raises; and
  when the launch of the subprocess raises \<open>e\<close> (executable missing, permission
  denied, or any other exception of \<^verbatim>\<open>subprocess.run\<close>), the call returns
  \<^verbatim>\<open>{success: False, error: str(e)}\<close>.
\<close>

theorem spawn_failure_is_returned:
  assumes "cypress_cmd w c specs browser = Inr cmd"
  shows "(\<exists>d. fst (run_cypress_tests spawn c specs browser w) = Inr d)
       \<and> (\<forall>orig w1 e w2.
             os_getcwd w = Inr orig \<longrightarrow>
             os_chdir (project_path c) w = Inr w1 \<longrightarrow>
             subprocess_run spawn cmd w1 = (Inl e, w2) \<longrightarrow>
             run_cypress_tests spawn c specs browser w =
               (Inr [(''success'', PyBool False), (''error'', PyStr (py_str e))], w2))"
  using assms
  by (auto simp: run_cypress_tests_def run_try_def failure_result_def
      split: prod.splits sum.splits)

theorem spawn_failure_is_returned_witness:
  "cypress_cmd demo_world demo_conn PyNone (PyStr ''chrome'') =
     Inr [PyStr ''npx'', PyStr ''cypress'', PyStr ''run'', PyStr ''--browser'', PyStr ''chrome'',
          PyStr ''--spec'',
          PyStr ''cypress/e2e/login.cy.js,cypress/e2e/sub.cy.ts,cypress/e2e/cart.cy.ts''] \<and>
   spawn_missing
     [''npx'', ''cypress'', ''run'', ''--browser'', ''chrome'', ''--spec'',
      ''cypress/e2e/login.cy.js,cypress/e2e/sub.cy.ts,cypress/e2e/cart.cy.ts'']
     (demo_world\<lparr>cwd := [''proj'']\<rparr>) = (Inl (FileNotFoundError ''npx''), demo_files) \<and>
   fst (run_cypress_tests spawn_missing demo_conn PyNone (PyStr ''chrome'') demo_world) =
     Inr [(''success'', PyBool False), (''error'', PyStr ''npx'')]"
proof -
  let ?cmd = "[PyStr ''npx'', PyStr ''cypress'', PyStr ''run'', PyStr ''--browser'',
      PyStr ''chrome'', PyStr ''--spec'',
      PyStr ''cypress/e2e/login.cy.js,cypress/e2e/sub.cy.ts,cypress/e2e/cart.cy.ts'']"
  let ?w1 = "demo_world\<lparr>cwd := [''proj'']\<rparr>"
  have cmd: "cypress_cmd demo_world demo_conn PyNone (PyStr ''chrome'') = Inr ?cmd"
    by (simp add: cypress_cmd_def demo_listing)
  have sp: "spawn_missing (map the_str ?cmd) ?w1 = (Inl (FileNotFoundError ''npx''), demo_files)"
    by (simp add: spawn_missing_def demo_world_def)
  have g: "os_getcwd demo_world = Inr ''/home/u''"
    by (simp add: os_defs demo_defs)
  have ch: "os_chdir (project_path demo_conn) demo_world = Inr ?w1"
    by (simp add: os_defs demo_defs)
  have run: "subprocess_run spawn_missing ?cmd ?w1 = (Inl (FileNotFoundError ''npx''), ?w1)"
    using subprocess_run_spawn_failure[of ?cmd spawn_missing ?w1, OF _ sp]
    by (simp add: demo_world_def)
  from spawn_failure_is_returned[OF cmd, of spawn_missing] g ch run
  have "run_cypress_tests spawn_missing demo_conn PyNone (PyStr ''chrome'') demo_world =
      (Inr [(''success'', PyBool False), (''error'', PyStr ''npx'')], ?w1)"
    by simp
  with cmd sp show ?thesis by simp
qed

subsection \<open>C10: a project without the write directory\<close>

text \<open>
  Claim C10 says that on a root that has \<^verbatim>\<open>cypress\<close>, \<^verbatim>\<open>cypress/e2e\<close> and
  \<^verbatim>\<open>cypress/fixtures\<close> but no \<^verbatim>\<open>cypress/integration\<close>, construction succeeds and
  a later \<^verbatim>\<open>create_test_file\<close> returns the failure result. Construction does
  succeed; but \<^verbatim>\<open>os.path.join\<close> drops the root when the filename is an absolute
  path, and the write then goes wherever the filename points: with the filename
  \<^verbatim>\<open>/home/u/foo\<close> the call reports success.
\<close>

theorem write_without_integration_counterexample:
  "init_connector bare_world ''/proj'' = Inr demo_conn \<and>
   \<not> os_path_exists bare_world ''/proj/cypress/integration'' \<and>
   fst (create_test_file demo_conn (PyStr ''/home/u/foo'') (PyStr ''X'') bare_world) =
     Inr [(''success'', PyBool True), (''file_path'', PyStr ''/home/u/foo.cy.js'')]"
  by (simp add: init_connector_def validate_project_structure_def required_dirs_def
      create_test_file_def default_suffix_def endswith_def Let_def os_defs demo_defs)

text \<open>
  Claim C10, amended: on a root where the three required paths exist and nothing
  exists at \<^verbatim>\<open>cypress/integration\<close>, construction succeeds, and a later
  \<^verbatim>\<open>create_test_file\<close> with a filename that does not begin with a slash returns
  \<^verbatim>\<open>{success: False, error: <description>}\<close>, raises nothing and changes nothing.
\<close>

theorem write_without_integration_fails:
  assumes "\<forall>d \<in> set required_dirs. os_path_exists w (path_join root [d])"
    and "\<not> os_path_exists w (path_join root [''cypress'', ''integration''])"
    and "fn = [] \<or> hd fn \<noteq> CHR ''/''"
  shows "init_connector w root = Inr \<lparr>project_path = root\<rparr>
       \<and> (\<exists>e. create_test_file \<lparr>project_path = root\<rparr> (PyStr fn) content w =
                (Inr [(''success'', PyBool False), (''error'', PyStr (py_str e))], w))"
proof -
  let ?P = "path_join root [''cypress'', ''integration'']"
  have init: "init_connector w root = Inr \<lparr>project_path = root\<rparr>"
    using assms(1) by (simp add: init_connector_iff)
  have shape: "?P \<noteq> []" "last ?P \<noteq> CHR ''/''"
    using integration_path_shape[of root] by simp_all
  have name: "default_suffix fn \<noteq> []" "hd (default_suffix fn) \<noteq> CHR ''/''"
    using default_suffix_shape[OF assms(3)] by simp_all
  have "path_join root [''cypress'', ''integration'', default_suffix fn] =
          join2 ?P (default_suffix fn)"
    by (simp add: path_join_def)
  also have "\<dots> = ?P @ CHR ''/'' # default_suffix fn"
    by (rule join2_relative[OF shape name])
  finally have fp: "path_join root [''cypress'', ''integration'', default_suffix fn] =
      ?P @ CHR ''/'' # default_suffix fn" .
  from open_w_below_missing[OF assms(2) shape(1)]
  obtain e where "os_open_w (?P @ CHR ''/'' # default_suffix fn) w = Inl e"
    by blast
  then have "create_test_file \<lparr>project_path = root\<rparr> (PyStr fn) content w =
      (Inr (failure_result e), w)"
    by (simp add: create_test_file_def fp)
  then show ?thesis using init by (auto simp: failure_result_def)
qed

theorem write_without_integration_fails_witness:
  "os_path_exists bare_world ''/proj/cypress'' \<and>
   os_path_exists bare_world ''/proj/cypress/e2e'' \<and>
   os_path_exists bare_world ''/proj/cypress/fixtures'' \<and>
   \<not> os_path_exists bare_world ''/proj/cypress/integration'' \<and>
   init_connector bare_world ''/proj'' = Inr \<lparr>project_path = ''/proj''\<rparr> \<and>
   (\<exists>e. create_test_file \<lparr>project_path = ''/proj''\<rparr> (PyStr ''foo'') (PyStr ''X'') bare_world =
          (Inr [(''success'', PyBool False), (''error'', PyStr (py_str e))], bare_world))"
proof -
  have ex: "os_path_exists bare_world ''/proj/cypress'' \<and>
      os_path_exists bare_world ''/proj/cypress/e2e'' \<and>
      os_path_exists bare_world ''/proj/cypress/fixtures''"
    by (simp add: os_defs demo_defs)
  then have req: "\<forall>d \<in> set required_dirs. os_path_exists bare_world (path_join ''/proj'' [d])"
    by (simp add: required_dirs_def path_join_def join2_def)
  have no: "\<not> os_path_exists bare_world ''/proj/cypress/integration''"
    by (simp add: os_defs demo_defs)
  then have no': "\<not> os_path_exists bare_world (path_join ''/proj'' [''cypress'', ''integration''])"
    by (simp add: path_join_def join2_def)
  have rel: "''foo'' = [] \<or> hd ''foo'' \<noteq> CHR ''/''"
    by simp
  from write_without_integration_fails[OF req no' rel, of "PyStr ''X''"] ex no
  show ?thesis by blast
qed


end
